theory Spec2Isabelle
  imports Complex_Main "HOL-Library.Word"
begin

section \<open>Java values used by AbstractIndexEngine\<close>

text \<open>
  The engine is the Java class \<open>com.tle.core.freetext.index.AbstractIndexEngine\<close>.
  A Java \<open>long\<close> is a 64-bit word read as two's complement; \<open>Math.max\<close> on two longs
  is \<open>(a >= b) ? a : b\<close> with the signed comparison.
\<close>

type_synonym long = "64 word"

definition Math_max :: "long \<Rightarrow> long \<Rightarrow> long" where
  "Math_max a b = (if sint b \<le> sint a then a else b)"

text \<open>
  The throwables the class throws, catches or lets pass. \<open>CheckedException\<close> stands for
  any checked exception other than an \<open>IOException\<close> (an index builder is declared
  \<open>throws Exception\<close>), \<open>RuntimeException\<close> for an unchecked exception with its
  optional cause, \<open>JavaError\<close> for a \<open>java.lang.Error\<close> (the class throws one itself
  when the index directory cannot be created).
\<close>

datatype throwable =
    IOException string
  | CheckedException string
  | RuntimeException string "throwable option"
  | NullPointerException
  | ErrorDuringSearchException string throwable
  | JavaError string

fun isIOException :: "throwable \<Rightarrow> bool" where
  "isIOException (IOException m) = True"
| "isIOException t = False"

text \<open>\<open>catch (Exception ex)\<close> takes every throwable but a \<open>java.lang.Error\<close>.\<close>

fun isException :: "throwable \<Rightarrow> bool" where
  "isException (JavaError m) = False"
| "isException t = True"

fun getClass :: "throwable \<Rightarrow> string" where
  "getClass (IOException m) = ''java.io.IOException''"
| "getClass (CheckedException m) = ''java.lang.Exception''"
| "getClass (RuntimeException m c) = ''java.lang.RuntimeException''"
| "getClass NullPointerException = ''java.lang.NullPointerException''"
| "getClass (ErrorDuringSearchException m c) =
     ''com.dytech.edge.exceptions.ErrorDuringSearchException''"
| "getClass (JavaError m) = ''java.lang.Error''"

fun getMessage :: "throwable \<Rightarrow> string" where
  "getMessage (IOException m) = m"
| "getMessage (CheckedException m) = m"
| "getMessage (RuntimeException m c) = m"
| "getMessage NullPointerException = []"
| "getMessage (ErrorDuringSearchException m c) = m"
| "getMessage (JavaError m) = m"

fun getCause :: "throwable \<Rightarrow> throwable option" where
  "getCause (RuntimeException m c) = c"
| "getCause (ErrorDuringSearchException m c) = Some c"
| "getCause t = None"

text \<open>
  Guava's \<open>Throwables.propagate\<close>: a runtime exception or an error is returned as it
  is, anything else is wrapped in a new \<open>RuntimeException\<close> whose cause it becomes.
\<close>

fun toString :: "throwable \<Rightarrow> string" where
  "toString t = getClass t @ '': '' @ getMessage t"

fun propagate :: "throwable \<Rightarrow> throwable" where
  "propagate (IOException m) = RuntimeException (toString (IOException m)) (Some (IOException m))"
| "propagate (CheckedException m) =
     RuntimeException (toString (CheckedException m)) (Some (CheckedException m))"
| "propagate t = t"

section \<open>The objects the engine holds\<close>

text \<open>
  An \<open>IndexSearcher\<close> (a snapshot of the index) is known by its identity only.
  Analyzers are values: a \<open>TLEAnalyzer\<close> with its stop set (\<open>None\<close> for \<open>null\<close>) and
  its stemming flag, or an analyzer of a Lucene language package, known by its class name.
\<close>

type_synonym indexSearcher = nat

datatype analyzer =
    TLEAnalyzer "string list option" bool
  | LanguageAnalyzer string

record perFieldAnalyzerWrapper =
  defaultAnalyzer :: analyzer
  fieldAnalyzers :: "string \<rightharpoonup> analyzer"

record fsDirectory =
  dirPath :: string
  dirClosed :: bool

record trackingIndexWriter =
  writerAnalyzer :: perFieldAnalyzerWrapper
  writerClosed :: bool

text \<open>
  Modelled from the spec: the \<open>NRTManager\<close> of the Lucene library is the spec's reader
  pool (section 4.2): it holds the current snapshot and counts references; \<open>acquire\<close>
  increments the count and \<open>release\<close> decrements it.
\<close>

record nrtManager =
  currentSearcher :: "indexSearcher option"
  refCount :: nat
  managerClosed :: bool

record nrtManagerReopenThread =
  threadName :: string
  threadPriority :: int
  threadDaemon :: bool
  threadStarted :: bool
  targetMaxStaleSec :: real
  targetMinStaleSec :: real
  threadClosed :: bool

text \<open>A \<open>java.util.Timer\<close> with the one task the engine schedules on it (times in ms).\<close>

record timer =
  timerDaemon :: bool
  timerDelay :: long
  timerPeriod :: long
  timerCancelled :: bool

datatype level = INFO | WARN | ERROR

text \<open>
  What the engine does to its collaborators, in the order it does it: the calls it makes
  and the lines it logs.
\<close>

datatype event =
    Log level string "throwable option"
  | TimerCancel
  | ReopenThreadClose
  | NRTManagerClose
  | IndexWriterClose
  | DirectoryClose
  | FileUtilsDelete string
  | Mkdirs string
  | FSDirectoryOpen string
  | IndexWriterUnlock
  | NewIndexWriter
  | NewNRTManager
  | ReopenThreadStart
  | TimerSchedule
  | BuildIndex
  | WaitForGeneration long
  | Acquire "indexSearcher option"
  | SearcherSearch "indexSearcher option"
  | Release indexSearcher
  | Commit

fun isLog :: "event \<Rightarrow> bool" where
  "isLog (Log l m t) = True"
| "isLog e = False"

text \<open>
  The fields of the class, with \<open>None\<close> for \<open>null\<close>, and the trace of the events so
  far. The fields \<open>indexPath\<close> and \<open>analyzerLanguage\<close> are set through their setters
  before the engine is used.
\<close>

record engine =
  indexPath :: string
  analyzer :: "perFieldAnalyzerWrapper option"
  stopWordsFile :: "string option"
  analyzerLanguage :: string
  directory :: "fsDirectory option"
  trackingIndexWriter :: "trackingIndexWriter option"
  nrtManager :: "nrtManager option"
  nrtReopenThread :: "nrtManagerReopenThread option"
  commiterThread :: "timer option"
  generation :: long
  trace :: "event list"

definition newEngine :: engine where
  "newEngine = \<lparr> indexPath = [], analyzer = None, stopWordsFile = None,
     analyzerLanguage = [], directory = None, trackingIndexWriter = None,
     nrtManager = None, nrtReopenThread = None, commiterThread = None,
     generation = - 1, trace = [] \<rparr>"

definition emit :: "event list \<Rightarrow> engine \<Rightarrow> engine" where
  "emit es s = s\<lparr>trace := trace s @ es\<rparr>"

definition setStopWordsFile :: "string option \<Rightarrow> engine \<Rightarrow> engine" where
  "setStopWordsFile f s = s\<lparr>stopWordsFile := f\<rparr>"

definition setAnalyzerLanguage :: "string \<Rightarrow> engine \<Rightarrow> engine" where
  "setAnalyzerLanguage l s = s\<lparr>analyzerLanguage := l\<rparr>"

definition setIndexPath :: "string \<Rightarrow> engine \<Rightarrow> engine" where
  "setIndexPath p s = s\<lparr>indexPath := p\<rparr>"

section \<open>modifyIndex\<close>

text \<open>
  An \<open>IndexBuilder\<close> is given the manager and the writer and returns the generation
  to wait for, or throws. \<open>modifyIndex\<close> calls it once; the inner \<open>finally\<close> stores
  \<open>Math.max(g, generation)\<close>, where \<open>g\<close> is still \<open>-1\<close> when the builder threw; the
  outer \<open>catch (Exception ex)\<close> wraps what it catches in a \<open>RuntimeException\<close>.
\<close>

type_synonym indexBuilder =
  "nrtManager option \<Rightarrow> trackingIndexWriter option \<Rightarrow> throwable + long"

definition modifyIndex :: "indexBuilder \<Rightarrow> engine \<Rightarrow> (throwable + unit) \<times> engine" where
  "modifyIndex builder s =
     (let s1 = emit [BuildIndex] s in
      case builder (nrtManager s) (trackingIndexWriter s) of
        Inr r \<Rightarrow> (Inr (), s1\<lparr>generation := Math_max r (generation s1)\<rparr>)
      | Inl t \<Rightarrow>
          (let s2 = s1\<lparr>generation := Math_max (- 1) (generation s1)\<rparr> in
           if isException t
           then (Inl (RuntimeException ''Error while building index'' (Some t)), s2)
           else (Inl t, s2)))"

section \<open>search\<close>

text \<open>
  Modelled from the spec: \<open>NRTManager.acquire\<close> of the Lucene library hands out the
  current snapshot and increments the reference count (spec section 4.2). The source
  tests the acquired searcher against \<open>null\<close>, so the current snapshot is an option.
\<close>

definition acquire :: "nrtManager \<Rightarrow> indexSearcher option \<times> nrtManager" where
  "acquire m =
     (case currentSearcher m of
        None \<Rightarrow> (None, m)
      | Some x \<Rightarrow> (Some x, m\<lparr>refCount := refCount m + 1\<rparr>))"

text \<open>
  Modelled from the spec: \<open>NRTManager.release\<close> of the Lucene library, when it does not
  fail, decrements the reference count (spec section 4.2).
\<close>

definition release :: "nrtManager \<Rightarrow> nrtManager" where
  "release m = m\<lparr>refCount := refCount m - 1\<rparr>"

text \<open>
  A \<open>Searcher\<close> is given the acquired snapshot and returns a value or throws: an
  \<open>IOException\<close>, as declared, or an unchecked throwable. The outcome of \<open>release\<close> is
  \<open>rel\<close>: \<open>Some msg\<close> when it throws an \<open>IOException\<close> with that message.

  \<open>search\<close> waits for the tracked generation, acquires, runs the searcher in a
  \<open>try\<close> whose \<open>catch (IOException ex)\<close> logs and throws an
  \<open>ErrorDuringSearchException\<close>, and whose \<open>finally\<close> releases a searcher that is not
  \<open>null\<close>; an \<open>IOException\<close> of the release is thrown from the \<open>finally\<close> block as
  another \<open>ErrorDuringSearchException\<close>, which replaces the result or the throwable
  of the \<open>try\<close> block.
\<close>

type_synonym 'rv searcher = "indexSearcher option \<Rightarrow> throwable + 'rv"

definition search ::
  "'rv searcher \<Rightarrow> (indexSearcher \<Rightarrow> string option) \<Rightarrow> engine \<Rightarrow> (throwable + 'rv) \<times> engine" where
  "search fn rel s =
     (case nrtManager s of
        None \<Rightarrow> (Inl NullPointerException, s)
      | Some m \<Rightarrow>
          (let s1 = emit [WaitForGeneration (generation s)] s;
               (indexSearcher, m1) = acquire m;
               s2 = emit [Acquire indexSearcher] (s1\<lparr>nrtManager := Some m1\<rparr>);
               s3 = emit [SearcherSearch indexSearcher] s2;
               (r, s4) =
                 (case fn indexSearcher of
                    Inr v \<Rightarrow> (Inr v, s3)
                  | Inl ex \<Rightarrow>
                      if isIOException ex
                      then (Inl (ErrorDuringSearchException ''Error searching index'' ex),
                            emit [Log ERROR ''Error searching index'' (Some ex)] s3)
                      else (Inl ex, s3))
           in case indexSearcher of
                None \<Rightarrow> (r, s4)
              | Some x \<Rightarrow>
                  (let s5 = emit [Release x] s4 in
                   case rel x of
                     None \<Rightarrow> (r, s5\<lparr>nrtManager := Some (release m1)\<rparr>)
                   | Some msg \<Rightarrow>
                       (Inl (ErrorDuringSearchException ''Error releasing searcher''
                               (IOException msg)), s5))))"

section \<open>getAnalyser\<close>

text \<open>
  What \<open>getAnalyser\<close> and \<open>afterPropertiesSet\<close> find outside the engine: the file
  system, the classes on the class path, the outcome of the Lucene constructors, and the
  abstract method \<open>getAnalyzerFieldMap\<close> of the concrete engine. \<open>Some msg\<close> is an
  \<open>IOException\<close> with that message.
\<close>

datatype reflectiveFailure =
    InstantiationException
  | NoSuchMethodException
  | InvocationTargetException
  | IllegalAccessException

text \<open>
  A subclass of \<open>ReusableAnalyzerBase\<close> found by the class path scan: its name, the
  outcome of \<open>getDeclaredConstructor(Version.class).newInstance(LUCENE_36)\<close>, and of
  \<open>getDeclaredMethod("getDefaultStopSet")\<close> followed by \<open>invoke(null)\<close>.
\<close>

record analyzerClass =
  className :: string
  newInstance :: "reflectiveFailure option"
  getDefaultStopSet :: "reflectiveFailure + string list"

record env =
  pathExists :: bool
  mkdirsResult :: bool
  openDirectory :: "string option"
  isLocked :: bool
  unlockResult :: "string option"
  newIndexWriter :: "string option"
  newNRTManager :: "string option"
  firstSearcher :: "indexSearcher option"
  currentThreadPriority :: int
  engineClass :: string
  stopWordsFileExists :: bool
  getWordSet :: "string + string list"
  scanSubclasses :: "string \<Rightarrow> analyzerClass list"
  getAnalyzerFieldMap :: "analyzer \<Rightarrow> analyzer \<Rightarrow> (string \<rightharpoonup> analyzer)"

text \<open>\<open>String.contains\<close>: the second string occurs in the first.\<close>

fun startsWith :: "string \<Rightarrow> string \<Rightarrow> bool" where
  "startsWith s [] = True"
| "startsWith [] (p # ps) = False"
| "startsWith (c # cs) (p # ps) = (c = p \<and> startsWith cs ps)"

fun String_contains :: "string \<Rightarrow> string \<Rightarrow> bool" where
  "String_contains [] p = (p = [])"
| "String_contains (c # cs) p = (startsWith (c # cs) p \<or> String_contains cs p)"

text \<open>The stop set read from the stop words file, \<open>None\<close> for \<open>null\<close>.\<close>

definition loadStopSet :: "env \<Rightarrow> engine \<Rightarrow> string list option \<times> event list" where
  "loadStopSet e s =
     (case stopWordsFile s of
        None \<Rightarrow> (None, [])
      | Some f \<Rightarrow>
          if stopWordsFileExists e
          then (case getWordSet e of
                  Inr ws \<Rightarrow> (Some ws, [])
                | Inl msg \<Rightarrow>
                    (None, [Log WARN (''No stop words available: '' @ f) (Some (IOException msg))]))
          else (None, []))"

text \<open>
  The three analyzers \<open>(normalAnalyzer, nonStemmedAnalyzer, autoCompleteAnalyzer)\<close> that
  \<open>getAnalyser\<close> has built when it reaches the \<open>PerFieldAnalyzerWrapper\<close>, with the
  lines logged on the way. For a language other than \<open>en\<close> the first class of the language
  package replaces the first two, when there is one; the four reflective exceptions are
  caught, and the handler puts the autocomplete analyzer in both places.
\<close>

definition analyzerRoles :: "env \<Rightarrow> engine \<Rightarrow> (analyzer \<times> analyzer \<times> analyzer) \<times> event list" where
  "analyzerRoles e s =
     (let (stopSet, logs) = loadStopSet e s;
          normalAnalyzer = TLEAnalyzer stopSet True;
          nonStemmedAnalyzer = TLEAnalyzer stopSet False;
          autoCompleteAnalyzer = TLEAnalyzer None False;
          languageAnalyzerPackage = ''org.apache.lucene.analysis.'' @ analyzerLanguage s;
          unavailable = Log WARN (analyzerLanguage s @
            '' language analyzer is not avaiable so use the default analyzer'') None
      in if analyzerLanguage s = ''en''
         then ((normalAnalyzer, nonStemmedAnalyzer, autoCompleteAnalyzer), logs)
         else
           (case find (\<lambda>c. String_contains (className c) languageAnalyzerPackage)
                   (scanSubclasses e languageAnalyzerPackage) of
              None \<Rightarrow> ((normalAnalyzer, nonStemmedAnalyzer, autoCompleteAnalyzer), logs)
            | Some c \<Rightarrow>
                (case newInstance c of
                   Some failure \<Rightarrow>
                     ((autoCompleteAnalyzer, autoCompleteAnalyzer, autoCompleteAnalyzer),
                      logs @ [unavailable])
                 | None \<Rightarrow>
                     (case getDefaultStopSet c of
                        Inl failure \<Rightarrow>
                          ((autoCompleteAnalyzer, autoCompleteAnalyzer, autoCompleteAnalyzer),
                           logs @ [unavailable])
                      | Inr stop \<Rightarrow>
                          ((LanguageAnalyzer (className c), TLEAnalyzer (Some stop) False,
                            autoCompleteAnalyzer),
                           logs @ [Log INFO (''Using Lucene analyzer: '' @ className c) None])))))"

text \<open>
  \<open>getAnalyser\<close> builds the wrapper only when the field \<open>analyzer\<close> is \<open>null\<close>, stores
  it in the field, and returns the field.
\<close>

definition getAnalyser :: "env \<Rightarrow> engine \<Rightarrow> perFieldAnalyzerWrapper \<times> engine" where
  "getAnalyser e s =
     (case analyzer s of
        Some a \<Rightarrow> (a, s)
      | None \<Rightarrow>
          (let ((normalAnalyzer, nonStemmedAnalyzer, autoCompleteAnalyzer), logs) =
                 analyzerRoles e s;
               a = \<lparr> defaultAnalyzer = normalAnalyzer,
                     fieldAnalyzers =
                       getAnalyzerFieldMap e autoCompleteAnalyzer nonStemmedAnalyzer \<rparr>
           in (a, emit logs (s\<lparr>analyzer := Some a\<rparr>))))"

section \<open>afterPropertiesSet\<close>

text \<open>
  The reopen thread is \<open>new NRTManagerReopenThread(nrtManager, 5.0, 0.1)\<close>, the two
  numbers being seconds, named after the class, with the priority
  \<open>Math.min(current + 2, Thread.MAX_PRIORITY)\<close>, made a daemon and started.
\<close>

definition MAX_PRIORITY :: int where
  "MAX_PRIORITY = 10"

definition newReopenThread :: "env \<Rightarrow> nrtManagerReopenThread" where
  "newReopenThread e =
     \<lparr> threadName = ''NRT Reopen Thread: '' @ engineClass e,
       threadPriority = min (currentThreadPriority e + 2) MAX_PRIORITY,
       threadDaemon = True,
       threadStarted = True,
       targetMaxStaleSec = 5,
       targetMinStaleSec = 1 / 10,
       threadClosed = False \<rparr>"

text \<open>
  The committer is \<open>new Timer(true)\<close>, a daemon, with the commit task scheduled by
  \<open>schedule(task, 5 * 60 * 1000, 5 * 60 * 1000)\<close>: the products are computed on 32-bit
  integers and widened to \<open>long\<close>.
\<close>

definition newCommiterThread :: timer where
  "newCommiterThread =
     \<lparr> timerDaemon = True,
       timerDelay = scast (5 * 60 * 1000 :: 32 word),
       timerPeriod = scast (5 * 60 * 1000 :: 32 word),
       timerCancelled = False \<rparr>"

text \<open>
  \<open>afterPropertiesSet\<close>: create the index directory when it is missing (an \<open>Error\<close>
  when that fails), open it, unlock it when it is locked, open the writer with the
  analyzer of \<open>getAnalyser\<close>, create the manager, start the reopen thread and schedule
  the committer. Each field is assigned when its statement is reached, so a failure
  leaves the later fields as they were.
\<close>

definition afterPropertiesSet :: "env \<Rightarrow> engine \<Rightarrow> (throwable + unit) \<times> engine" where
  "afterPropertiesSet e s =
     (if \<not> pathExists e \<and> \<not> mkdirsResult e
      then (Inl (JavaError (''Error creating index:'' @ indexPath s)),
            emit [Mkdirs (indexPath s)] s)
      else
        (let s1 = emit ((if pathExists e then [] else [Mkdirs (indexPath s)])
                          @ [FSDirectoryOpen (indexPath s)]) s
         in case openDirectory e of
              Some msg \<Rightarrow> (Inl (IOException msg), s1)
            | None \<Rightarrow>
                (let s2 = s1\<lparr>directory := Some \<lparr> dirPath = indexPath s, dirClosed = False \<rparr>\<rparr>;
                     s3 = (if isLocked e
                           then emit [Log INFO (''Unlocking index:'' @ indexPath s) None,
                                      IndexWriterUnlock] s2
                           else s2)
                 in case (if isLocked e then unlockResult e else None) of
                      Some msg \<Rightarrow> (Inl (IOException msg), s3)
                    | None \<Rightarrow>
                        (let s4 = emit [Log INFO (''Opening writer for index:'' @ indexPath s) None] s3;
                             (a, s5) = getAnalyser e s4;
                             s6 = emit [NewIndexWriter] s5
                         in case newIndexWriter e of
                              Some msg \<Rightarrow> (Inl (IOException msg), s6)
                            | None \<Rightarrow>
                                (let s7 = emit [NewNRTManager]
                                       (s6\<lparr>trackingIndexWriter :=
                                             Some \<lparr> writerAnalyzer = a, writerClosed = False \<rparr>\<rparr>)
                                 in case newNRTManager e of
                                      Some msg \<Rightarrow> (Inl (IOException msg), s7)
                                    | None \<Rightarrow>
                                        (Inr (),
                                         emit [ReopenThreadStart, TimerSchedule]
                                           (s7\<lparr>nrtManager :=
                                                  Some \<lparr> currentSearcher = firstSearcher e,
                                                         refCount = 0, managerClosed = False \<rparr>,
                                               nrtReopenThread := Some (newReopenThread e),
                                               commiterThread := Some newCommiterThread\<rparr>)))))))"

section \<open>deleteDirectory\<close>

text \<open>
  The outcomes of the three \<open>close\<close> calls that are declared to throw an
  \<open>IOException\<close> (\<open>Some msg\<close> when they do).
\<close>

record closeOutcomes =
  closeManager :: "string option"
  closeWriter :: "string option"
  closeDirectory :: "string option"

text \<open>
  Modelled from the spec: \<open>FileUtils.delete\<close> of \<open>com.dytech.common.io\<close> is not among
  the sources; it deletes the underlying storage (spec sections 3 and 4.6). It is one
  event of the trace and changes no field of the engine.
\<close>

definition FileUtils_delete :: "string \<Rightarrow> engine \<Rightarrow> engine" where
  "FileUtils_delete path s = emit [FileUtilsDelete path] s"

text \<open>
  \<open>deleteDirectory\<close> runs its seven statements in the order of the source; a field that
  is \<open>null\<close> gives a \<open>NullPointerException\<close> where it is used; an \<open>IOException\<close>
  ends the block and leaves through \<open>Throwables.propagate\<close>. The field \<open>analyzer\<close> and
  the field \<open>generation\<close> are not assigned here.
\<close>

definition deleteDirectory ::
  "closeOutcomes \<Rightarrow> env \<Rightarrow> engine \<Rightarrow> (throwable + unit) \<times> engine" where
  "deleteDirectory c e s =
     (case commiterThread s of
        None \<Rightarrow> (Inl NullPointerException, s)
      | Some t \<Rightarrow>
      (let s1 = emit [TimerCancel] (s\<lparr>commiterThread := Some (t\<lparr>timerCancelled := True\<rparr>)\<rparr>) in
       case nrtReopenThread s of
         None \<Rightarrow> (Inl NullPointerException, s1)
       | Some r \<Rightarrow>
       (let s2 = emit [ReopenThreadClose]
                   (s1\<lparr>nrtReopenThread := Some (r\<lparr>threadClosed := True\<rparr>)\<rparr>) in
        case nrtManager s of
          None \<Rightarrow> (Inl NullPointerException, s2)
        | Some m \<Rightarrow>
        (let s3 = emit [NRTManagerClose] s2 in
         case closeManager c of
           Some msg \<Rightarrow> (Inl (propagate (IOException msg)), s3)
         | None \<Rightarrow>
         (let s4 = s3\<lparr>nrtManager := Some (m\<lparr>managerClosed := True\<rparr>)\<rparr> in
          case trackingIndexWriter s of
            None \<Rightarrow> (Inl NullPointerException, s4)
          | Some w \<Rightarrow>
          (let s5 = emit [IndexWriterClose] s4 in
           case closeWriter c of
             Some msg \<Rightarrow> (Inl (propagate (IOException msg)), s5)
           | None \<Rightarrow>
           (let s6 = s5\<lparr>trackingIndexWriter := Some (w\<lparr>writerClosed := True\<rparr>)\<rparr> in
            case directory s of
              None \<Rightarrow> (Inl NullPointerException, s6)
            | Some d \<Rightarrow>
            (let s7 = emit [DirectoryClose] s6 in
             case closeDirectory c of
               Some msg \<Rightarrow> (Inl (propagate (IOException msg)), s7)
             | None \<Rightarrow>
             (let s8 = FileUtils_delete (indexPath s)
                         (s7\<lparr>directory := Some (d\<lparr>dirClosed := True\<rparr>)\<rparr>) in
              case afterPropertiesSet e s8 of
                (Inl ex, s9) \<Rightarrow> (Inl (if isIOException ex then propagate ex else ex), s9)
              | (Inr u, s9) \<Rightarrow> (Inr (), s9))))))))))"

text \<open>
  The engine is ready when the directory, the writer and the manager are open, the reopen
  thread is started and not closed, and the committer is not cancelled.
\<close>

definition ready :: "engine \<Rightarrow> bool" where
  "ready s =
     ((case directory s of None \<Rightarrow> False | Some d \<Rightarrow> \<not> dirClosed d) \<and>
      (case trackingIndexWriter s of None \<Rightarrow> False | Some w \<Rightarrow> \<not> writerClosed w) \<and>
      (case nrtManager s of None \<Rightarrow> False | Some m \<Rightarrow> \<not> managerClosed m) \<and>
      (case nrtReopenThread s of None \<Rightarrow> False | Some r \<Rightarrow> threadStarted r \<and> \<not> threadClosed r) \<and>
      (case commiterThread s of None \<Rightarrow> False | Some t \<Rightarrow> \<not> timerCancelled t))"

section \<open>The commit task\<close>

text \<open>
  The \<open>run\<close> method of the task: commit the writer; \<open>catch (IOException ex)\<close> logs the
  failure and returns. The outcome of \<open>commit\<close> is \<open>Some msg\<close> when it throws the
  \<open>IOException\<close> it is declared with. The result is the throwable that leaves \<open>run\<close>.
\<close>

definition commitTask :: "string option \<Rightarrow> engine \<Rightarrow> throwable option \<times> engine" where
  "commitTask outcome s =
     (case trackingIndexWriter s of
        None \<Rightarrow> (Some NullPointerException, s)
      | Some w \<Rightarrow>
          (let s1 = emit [Commit] s in
           case outcome of
             None \<Rightarrow> (None, s1)
           | Some msg \<Rightarrow>
               (None, emit [Log ERROR ''Error attempting to commit index writer''
                              (Some (IOException msg))] s1)))"

text \<open>
  One tick of the committer: a timer that is cancelled runs nothing; a task that throws
  ends the timer's thread.
\<close>

definition timerTick :: "string option \<Rightarrow> engine \<Rightarrow> engine" where
  "timerTick outcome s =
     (case commiterThread s of
        None \<Rightarrow> s
      | Some t \<Rightarrow>
          if timerCancelled t then s
          else (case commitTask outcome s of
                  (None, s1) \<Rightarrow> s1
                | (Some ex, s1) \<Rightarrow> s1\<lparr>commiterThread := Some (t\<lparr>timerCancelled := True\<rparr>)\<rparr>))"

section \<open>Runs of the engine\<close>

text \<open>
  The calls a client or the committer can make, and the state after a list of them,
  starting from a fresh engine.
\<close>

datatype op =
    SetStopWordsFile "string option"
  | SetAnalyzerLanguage string
  | SetIndexPath string
  | AfterPropertiesSet env
  | DeleteDirectory closeOutcomes env
  | ModifyIndex indexBuilder
  | Search "unit searcher" "indexSearcher \<Rightarrow> string option"
  | TimerTick "string option"

fun step :: "op \<Rightarrow> engine \<Rightarrow> engine" where
  "step (SetStopWordsFile f) s = setStopWordsFile f s"
| "step (SetAnalyzerLanguage l) s = setAnalyzerLanguage l s"
| "step (SetIndexPath p) s = setIndexPath p s"
| "step (AfterPropertiesSet e) s = snd (afterPropertiesSet e s)"
| "step (DeleteDirectory c e) s = snd (deleteDirectory c e s)"
| "step (ModifyIndex b) s = snd (modifyIndex b s)"
| "step (Search fn rel) s = snd (search fn rel s)"
| "step (TimerTick outcome) s = timerTick outcome s"

fun exec :: "op list \<Rightarrow> engine \<Rightarrow> engine" where
  "exec [] s = s"
| "exec (x # xs) s = exec xs (step x s)"

section \<open>Observing a run\<close>

text \<open>
  The events a call has added to the trace, the calls among them (the events that are not
  log lines), and whether the first \<open>a\<close> of a list has a \<open>b\<close> after it.
\<close>

definition newEvents :: "engine \<Rightarrow> engine \<Rightarrow> event list" where
  "newEvents s s' = drop (length (trace s)) (trace s')"

definition calls :: "event list \<Rightarrow> event list" where
  "calls es = filter (\<lambda>e. \<not> isLog e) es"


text \<open>
  The lines \<open>getAnalyser\<close> logs: those of building the analyzers when the field is
  \<open>null\<close>, none otherwise; and the warning of the handler of the reflective exceptions.
\<close>

definition analyserLogs :: "env \<Rightarrow> engine \<Rightarrow> event list" where
  "analyserLogs e s = (case analyzer s of None \<Rightarrow> snd (analyzerRoles e s) | Some a \<Rightarrow> [])"


text \<open>
  The environments in which no step of \<open>afterPropertiesSet\<close> throws, and the events
  of such a run.
\<close>

definition initSucceeds :: "env \<Rightarrow> bool" where
  "initSucceeds e =
     ((pathExists e \<or> mkdirsResult e) \<and> openDirectory e = None \<and>
      (if isLocked e then unlockResult e = None else True) \<and>
      newIndexWriter e = None \<and> newNRTManager e = None)"

definition initEvents :: "env \<Rightarrow> engine \<Rightarrow> event list" where
  "initEvents e s =
     (if pathExists e then [] else [Mkdirs (indexPath s)]) @ [FSDirectoryOpen (indexPath s)] @
     (if isLocked e
      then [Log INFO (''Unlocking index:'' @ indexPath s) None, IndexWriterUnlock] else []) @
     [Log INFO (''Opening writer for index:'' @ indexPath s) None] @ analyserLogs e s @
     [NewIndexWriter, NewNRTManager, ReopenThreadStart, TimerSchedule]"

section \<open>Concrete engines and collaborators\<close>

text \<open>
  A concrete engine for the statements below: its field map, an environment in which
  every step of the initialisation succeeds and no language class is on the class path,
  and the engine after its setters and \<open>afterPropertiesSet\<close> have run.
\<close>

definition fieldMap :: "analyzer \<Rightarrow> analyzer \<Rightarrow> (string \<rightharpoonup> analyzer)" where
  "fieldMap autoComplete nonStemmed =
     [''autocomplete'' \<mapsto> autoComplete, ''nostem'' \<mapsto> nonStemmed]"

definition exampleEnv :: env where
  "exampleEnv =
     \<lparr> pathExists = False, mkdirsResult = True, openDirectory = None, isLocked = False,
       unlockResult = None, newIndexWriter = None, newNRTManager = None,
       firstSearcher = Some 0, currentThreadPriority = 5,
       engineClass = ''class ItemIndex'', stopWordsFileExists = False,
       getWordSet = Inr [], scanSubclasses = (\<lambda>p. []), getAnalyzerFieldMap = fieldMap \<rparr>"

definition exampleEngine :: engine where
  "exampleEngine =
     exec [SetIndexPath ''/data/index'', SetAnalyzerLanguage ''en'', AfterPropertiesSet exampleEnv]
       newEngine"

text \<open>Index builders: two that return a generation, two that throw.\<close>

definition returns3 :: indexBuilder where
  "returns3 m w = Inr 3"

definition returnsSentinel :: indexBuilder where
  "returnsSentinel m w = Inr (- 1)"

definition throwsError :: indexBuilder where
  "throwsError m w = Inl (JavaError ''assertion failed'')"

definition throwsIOException :: indexBuilder where
  "throwsIOException m w = Inl (IOException ''disk full'')"

text \<open>
  Searchers: one that returns, one that throws an \<open>IOException\<close>, one that throws an
  unchecked exception; and a release that succeeds and one that throws an \<open>IOException\<close>.
\<close>

definition findsTwoHits :: "nat searcher" where
  "findsTwoHits x = Inr 2"

definition readFails :: "nat searcher" where
  "readFails x = Inl (IOException ''read failed'')"

definition queryRejected :: "nat searcher" where
  "queryRejected x = Inl (RuntimeException ''bad query'' None)"

definition releaseOk :: "indexSearcher \<Rightarrow> string option" where
  "releaseOk x = None"

definition releaseFails :: "indexSearcher \<Rightarrow> string option" where
  "releaseFails x = Some ''already closed''"

text \<open>
  Three \<open>close\<close> calls that succeed. A French configuration: a stop words file with two
  words and no class in the language package; the same with a class in the package whose
  constructor cannot be found; an engine set to French that is not initialised yet; and
  the example engine, initialised for English and then set to French.
\<close>

definition closesOk :: closeOutcomes where
  "closesOk = \<lparr> closeManager = None, closeWriter = None, closeDirectory = None \<rparr>"

definition frenchEnv :: env where
  "frenchEnv = exampleEnv\<lparr>stopWordsFileExists := True, getWordSet := Inr [''le'', ''la'']\<rparr>"

definition brokenFrenchAnalyzer :: analyzerClass where
  "brokenFrenchAnalyzer =
     \<lparr> className = ''org.apache.lucene.analysis.fr.FrenchAnalyzer'',
       newInstance = Some NoSuchMethodException,
       getDefaultStopSet = Inl NoSuchMethodException \<rparr>"

definition brokenFrenchEnv :: env where
  "brokenFrenchEnv = frenchEnv\<lparr>scanSubclasses := (\<lambda>p. [brokenFrenchAnalyzer])\<rparr>"


definition relocalisedEngine :: engine where
  "relocalisedEngine =
     exec [SetAnalyzerLanguage ''fr'', SetStopWordsFile (Some ''stopwords.txt'')] exampleEngine"

section \<open>Properties\<close>

lemmas model_defs =
  newEngine_def emit_def setStopWordsFile_def setAnalyzerLanguage_def setIndexPath_def
  modifyIndex_def Math_max_def search_def acquire_def release_def loadStopSet_def
  analyzerRoles_def getAnalyser_def MAX_PRIORITY_def newReopenThread_def newCommiterThread_def
  afterPropertiesSet_def FileUtils_delete_def deleteDirectory_def ready_def commitTask_def
  timerTick_def Let_def

lemmas example_defs = fieldMap_def exampleEnv_def exampleEngine_def returns3_def
  returnsSentinel_def throwsError_def throwsIOException_def findsTwoHits_def readFails_def
  queryRejected_def releaseOk_def releaseFails_def newEvents_def calls_def

subsection \<open>The generation tracker\<close>

lemma sint_Math_max: "sint (Math_max a b) = max (sint a) (sint b)"
  by (simp add: Math_max_def max_def)

lemma Math_max_sentinel: "- 1 \<le> sint b \<Longrightarrow> Math_max (- 1) b = b"
proof -
  assume h: "- 1 \<le> sint b"
  show ?thesis
  proof (cases "sint b \<le> - 1")
    case True
    with h have "sint b = sint (- 1 :: long)" by simp
    then have "b = - 1" by (rule signed_word_eqI)
    then show ?thesis by (simp add: Math_max_def)
  next
    case False
    then show ?thesis by (simp add: Math_max_def)
  qed
qed

text \<open>Only \<open>modifyIndex\<close> assigns the field \<open>generation\<close>.\<close>

lemma generation_emit [simp]: "generation (emit es s) = generation s"
  by (simp add: emit_def)

lemma generation_getAnalyser [simp]: "generation (snd (getAnalyser e s)) = generation s"
  by (simp add: getAnalyser_def Let_def split: option.splits prod.splits)

lemma generation_getAnalyser_eq:
  "getAnalyser e s = (a, s') \<Longrightarrow> generation s' = generation s"
  using generation_getAnalyser [of e s] by simp

lemma generation_afterPropertiesSet [simp]:
  "generation (snd (afterPropertiesSet e s)) = generation s"
  by (auto simp add: afterPropertiesSet_def Let_def split: option.splits prod.splits
      dest!: generation_getAnalyser_eq)

lemma generation_afterPropertiesSet_eq:
  "afterPropertiesSet e s = (r, s') \<Longrightarrow> generation s' = generation s"
  using generation_afterPropertiesSet [of e s] by simp

lemma generation_deleteDirectory [simp]:
  "generation (snd (deleteDirectory c e s)) = generation s"
  by (auto simp add: deleteDirectory_def FileUtils_delete_def Let_def
      split: option.splits prod.splits sum.splits
      dest!: generation_afterPropertiesSet_eq)

lemma generation_search [simp]: "generation (snd (search fn rel s)) = generation s"
  by (auto simp add: search_def acquire_def Let_def split: option.splits prod.splits sum.splits)

lemma generation_timerTick [simp]: "generation (timerTick outcome s) = generation s"
  by (simp add: timerTick_def commitTask_def Let_def split: option.splits prod.splits)

lemma generation_modifyIndex:
  "sint (generation s) \<le> sint (generation (snd (modifyIndex b s)))"
  by (simp add: modifyIndex_def Let_def sint_Math_max split: sum.splits)

lemma generation_step: "sint (generation s) \<le> sint (generation (step x s))"
  by (cases x)
    (simp_all add: generation_modifyIndex setStopWordsFile_def setAnalyzerLanguage_def
      setIndexPath_def)

lemma generation_exec: "sint (generation s) \<le> sint (generation (exec xs s))"
proof (induction xs arbitrary: s)
  case Nil
  show ?case by simp
next
  case (Cons x xs)
  have "sint (generation s) \<le> sint (generation (step x s))" by (rule generation_step)
  also have "\<dots> \<le> sint (generation (exec xs (step x s)))" by (rule Cons.IH)
  finally show ?case by simp
qed

lemma generation_reachable: "- 1 \<le> sint (generation (exec xs newEngine))"
  using generation_exec [of newEngine xs] by (simp add: newEngine_def)

text \<open>
  C2. A write that succeeds with generation \<open>g\<close> sets the tracker to the maximum of its
  previous value and \<open>g\<close>; in an engine reached from a fresh one by any calls, a write that
  returns the sentinel \<open>-1\<close> leaves the tracker as it was; and over any list of calls
  (writes that succeed or fail, searches, resets, commits) the tracker never decreases.
\<close>

theorem modifyIndex_tracker_max:
  "(builder (nrtManager s) (trackingIndexWriter s) = Inr g \<longrightarrow>
      fst (modifyIndex builder s) = Inr () \<and>
      generation (snd (modifyIndex builder s)) = Math_max g (generation s) \<and>
      sint (generation (snd (modifyIndex builder s))) = max (sint (generation s)) (sint g)) \<and>
   (s = exec ops newEngine \<and> builder (nrtManager s) (trackingIndexWriter s) = Inr (- 1) \<longrightarrow>
      generation (snd (modifyIndex builder s)) = generation s) \<and>
   sint (generation s) \<le> sint (generation (exec ops' s))"
proof (intro conjI impI)
  assume "builder (nrtManager s) (trackingIndexWriter s) = Inr g"
  then show "fst (modifyIndex builder s) = Inr ()"
    and "generation (snd (modifyIndex builder s)) = Math_max g (generation s)"
    and "sint (generation (snd (modifyIndex builder s))) = max (sint (generation s)) (sint g)"
    by (simp_all add: modifyIndex_def Let_def sint_Math_max max.commute)
next
  assume h: "s = exec ops newEngine \<and> builder (nrtManager s) (trackingIndexWriter s) = Inr (- 1)"
  then have "- 1 \<le> sint (generation s)" by (simp add: generation_reachable)
  then have m: "Math_max (- 1) (generation s) = generation s" by (rule Math_max_sentinel)
  from h have b: "builder (nrtManager s) (trackingIndexWriter s) = Inr (- 1)" by (rule conjunct2)
  from b m show "generation (snd (modifyIndex builder s)) = generation s"
    by (simp add: modifyIndex_def Let_def)
next
  show "sint (generation s) \<le> sint (generation (exec ops' s))" by (rule generation_exec)
qed

theorem modifyIndex_tracker_max_witness:
  "generation (exec [ModifyIndex returns3] newEngine) = 3 \<and>
   fst (modifyIndex returnsSentinel (exec [ModifyIndex returns3] newEngine)) = Inr () \<and>
   generation (snd (modifyIndex returnsSentinel (exec [ModifyIndex returns3] newEngine))) = 3 \<and>
   sint (generation (exec [ModifyIndex returnsSentinel, ModifyIndex throwsIOException]
           (exec [ModifyIndex returns3] newEngine))) = 3"
  using modifyIndex_tracker_max [of returnsSentinel "exec [ModifyIndex returns3] newEngine" "- 1"
      "[ModifyIndex returns3]" "[ModifyIndex returnsSentinel, ModifyIndex throwsIOException]"]
  by (simp add: model_defs example_defs)

text \<open>
  C3, as the code has it. In an engine reached from a fresh one, when the index builder
  throws, the engine is left as it was but for the one call of the builder in the trace:
  the tracker keeps its value and the builder is not called again. A throwable that is an
  \<open>Exception\<close> reaches the caller wrapped in a \<open>RuntimeException\<close> with the message
  \<open>Error while building index\<close> and the throwable as its cause; a \<open>java.lang.Error\<close>
  is not caught by \<open>catch (Exception ex)\<close> and reaches the caller as it is.
\<close>

theorem modifyIndex_failure:
  "s = exec ops newEngine \<and> builder (nrtManager s) (trackingIndexWriter s) = Inl t \<longrightarrow>
     snd (modifyIndex builder s) = s\<lparr>trace := trace s @ [BuildIndex]\<rparr> \<and>
     generation (snd (modifyIndex builder s)) = generation s \<and>
     fst (modifyIndex builder s) =
       (if isException t then Inl (RuntimeException ''Error while building index'' (Some t))
        else Inl t)"
proof (intro impI)
  assume h: "s = exec ops newEngine \<and> builder (nrtManager s) (trackingIndexWriter s) = Inl t"
  then have "- 1 \<le> sint (generation s)" by (simp add: generation_reachable)
  then have m: "Math_max (- 1) (generation s) = generation s" by (rule Math_max_sentinel)
  from h have b: "builder (nrtManager s) (trackingIndexWriter s) = Inl t" by (rule conjunct2)
  show "snd (modifyIndex builder s) = s\<lparr>trace := trace s @ [BuildIndex]\<rparr> \<and>
     generation (snd (modifyIndex builder s)) = generation s \<and>
     fst (modifyIndex builder s) =
       (if isException t then Inl (RuntimeException ''Error while building index'' (Some t))
        else Inl t)"
    using b m by (simp add: modifyIndex_def Let_def emit_def)
qed

theorem modifyIndex_failure_witness:
  "fst (modifyIndex throwsIOException (exec [ModifyIndex returns3] newEngine)) =
     Inl (RuntimeException ''Error while building index'' (Some (IOException ''disk full''))) \<and>
   generation (snd (modifyIndex throwsIOException (exec [ModifyIndex returns3] newEngine))) = 3 \<and>
   trace (snd (modifyIndex throwsIOException (exec [ModifyIndex returns3] newEngine))) =
     [BuildIndex, BuildIndex]"
  using modifyIndex_failure [of "exec [ModifyIndex returns3] newEngine" "[ModifyIndex returns3]"
      throwsIOException "IOException ''disk full''"]
  by (simp add: model_defs example_defs)

text \<open>
  The claim C3 as the spec words it fails for a builder that throws a \<open>java.lang.Error\<close>:
  the caller receives the \<open>Error\<close> itself, not a wrapping \<open>RuntimeException\<close>.
\<close>

theorem modifyIndex_error_counterexample:
  "fst (modifyIndex throwsError newEngine) = Inl (JavaError ''assertion failed'') \<and>
   fst (modifyIndex throwsError newEngine) \<noteq>
     Inl (RuntimeException ''Error while building index'' (Some (JavaError ''assertion failed'')))"
  by (simp add: model_defs example_defs)

subsection \<open>The scoped search\<close>



text \<open>
  C10, as the code has it. When the searcher throws a throwable that is not an
  \<open>IOException\<close>, \<open>search\<close> logs nothing and still calls the release once, after the
  searcher. When the release succeeds, the caller receives the throwable of the searcher
  as it is, and the reference is given back. When the release throws an \<open>IOException\<close>,
  the \<open>finally\<close> block throws an \<open>ErrorDuringSearchException\<close> with the message
  \<open>Error releasing searcher\<close>, and that is what the caller receives.
\<close>

theorem search_unchecked_propagates:
  "nrtManager s = Some m \<and> currentSearcher m = Some x \<and> fn (Some x) = Inl t \<and>
   \<not> isIOException t \<longrightarrow>
     newEvents s (snd (search fn rel s)) =
       [WaitForGeneration (generation s), Acquire (Some x), SearcherSearch (Some x), Release x] \<and>
     (rel x = None \<longrightarrow>
        fst (search fn rel s) = Inl t \<and> nrtManager (snd (search fn rel s)) = Some m) \<and>
     (rel x = Some msg \<longrightarrow>
        fst (search fn rel s) =
          Inl (ErrorDuringSearchException ''Error releasing searcher'' (IOException msg)))"
  by (cases "rel x")
     (simp_all add: search_def acquire_def release_def emit_def Let_def newEvents_def)

theorem search_unchecked_propagates_witness:
  "fst (search queryRejected releaseOk exampleEngine) = Inl (RuntimeException ''bad query'' None) \<and>
   newEvents exampleEngine (snd (search queryRejected releaseOk exampleEngine)) =
     [WaitForGeneration (- 1), Acquire (Some 0), SearcherSearch (Some 0), Release 0] \<and>
   nrtManager (snd (search queryRejected releaseOk exampleEngine)) =
     Some \<lparr>currentSearcher = Some 0, refCount = 0, managerClosed = False\<rparr>"
  using search_unchecked_propagates [of exampleEngine
      "\<lparr>currentSearcher = Some 0, refCount = 0, managerClosed = False\<rparr>" 0 queryRejected
      "RuntimeException ''bad query'' None" releaseOk "''x''"]
  by (simp add: model_defs example_defs)

text \<open>
  The claim C10 as worded fails when the release fails: the searcher throws an unchecked
  exception, and the caller receives the error of the release in its place.
\<close>

theorem search_unchecked_counterexample:
  "fst (search queryRejected releaseFails exampleEngine) =
     Inl (ErrorDuringSearchException ''Error releasing searcher'' (IOException ''already closed'')) \<and>
   fst (search queryRejected releaseFails exampleEngine) \<noteq> Inl (RuntimeException ''bad query'' None)"
  by (simp add: model_defs example_defs)

text \<open>
  C6, as the code has it. An \<open>IOException\<close> of the searcher, with a release that
  succeeds, reaches the caller as an \<open>ErrorDuringSearchException\<close> with the message
  \<open>Error searching index\<close> and the \<open>IOException\<close> as its cause. An \<open>IOException\<close>
  of the release reaches the caller as an \<open>ErrorDuringSearchException\<close> with the message
  \<open>Error releasing searcher\<close>, whatever the searcher did. The two are of one class and
  differ in their message and cause.
\<close>

theorem search_error_kinds:
  "nrtManager s = Some m \<and> currentSearcher m = Some x \<longrightarrow>
     (fn (Some x) = Inl t \<and> isIOException t \<and> rel x = None \<longrightarrow>
        fst (search fn rel s) = Inl (ErrorDuringSearchException ''Error searching index'' t)) \<and>
     (rel x = Some msg \<longrightarrow>
        fst (search fn rel s) =
          Inl (ErrorDuringSearchException ''Error releasing searcher'' (IOException msg))) \<and>
     getClass (ErrorDuringSearchException ''Error searching index'' t) =
       getClass (ErrorDuringSearchException ''Error releasing searcher'' (IOException msg)) \<and>
     getMessage (ErrorDuringSearchException ''Error searching index'' t) \<noteq>
       getMessage (ErrorDuringSearchException ''Error releasing searcher'' (IOException msg))"
  by (cases "fn (Some x)"; cases "rel x")
     (simp_all add: search_def acquire_def release_def emit_def Let_def)

theorem search_error_kinds_witness:
  "fst (search readFails releaseOk exampleEngine) =
     Inl (ErrorDuringSearchException ''Error searching index'' (IOException ''read failed'')) \<and>
   fst (search findsTwoHits releaseFails exampleEngine) =
     Inl (ErrorDuringSearchException ''Error releasing searcher'' (IOException ''already closed''))"
  using search_error_kinds [of exampleEngine
      "\<lparr>currentSearcher = Some 0, refCount = 0, managerClosed = False\<rparr>" 0 readFails
      "IOException ''read failed''" releaseOk "''x''"]
    search_error_kinds [of exampleEngine
      "\<lparr>currentSearcher = Some 0, refCount = 0, managerClosed = False\<rparr>" 0 findsTwoHits
      "IOException ''read failed''" releaseFails "''already closed''"]
  by (simp add: model_defs example_defs)

text \<open>
  The claim C6 as worded fails: the error of a failed search and the error of a failed
  release are of the same class, and when the release fails the caller receives the same
  error whether the searcher had returned a result or had failed.
\<close>

theorem search_error_kinds_counterexample:
  "fst (search readFails releaseOk exampleEngine) =
     Inl (ErrorDuringSearchException ''Error searching index'' (IOException ''read failed'')) \<and>
   fst (search findsTwoHits releaseFails exampleEngine) =
     Inl (ErrorDuringSearchException ''Error releasing searcher'' (IOException ''already closed'')) \<and>
   getClass (ErrorDuringSearchException ''Error searching index'' (IOException ''read failed'')) =
     getClass (ErrorDuringSearchException ''Error releasing searcher''
       (IOException ''already closed'')) \<and>
   fst (search readFails releaseFails exampleEngine) =
     fst (search findsTwoHits releaseFails exampleEngine)"
  by (simp add: model_defs example_defs)

subsection \<open>What getAnalyser and afterPropertiesSet change\<close>

lemma calls_append [simp]: "calls (xs @ ys) = calls xs @ calls ys"
  by (simp add: calls_def)

lemma calls_Nil [simp]: "calls [] = []"
  by (simp add: calls_def)

lemma calls_Cons [simp]: "calls (x # xs) = (if isLog x then calls xs else x # calls xs)"
  by (simp add: calls_def)

lemma calls_loadStopSet [simp]: "calls (snd (loadStopSet e s)) = []"
  by (simp add: loadStopSet_def split: option.splits sum.splits)

lemma calls_analyzerRoles [simp]: "calls (snd (analyzerRoles e s)) = []"
proof -
  have "calls (snd (loadStopSet e s)) = []" by simp
  then show ?thesis
    by (cases "loadStopSet e s")
       (simp add: analyzerRoles_def Let_def split: option.splits sum.splits)
qed

lemma calls_analyserLogs [simp]: "calls (analyserLogs e s) = []"
  by (simp add: analyserLogs_def split: option.splits)

lemma getAnalyser_frame:
  "snd (getAnalyser e s) =
     s\<lparr>analyzer := Some (fst (getAnalyser e s)), trace := trace s @ analyserLogs e s\<rparr>"
proof (cases "analyzer s")
  case None
  then show ?thesis
    by (cases "analyzerRoles e s")
       (simp add: getAnalyser_def analyserLogs_def Let_def emit_def split: prod.splits)
next
  case (Some a)
  then show ?thesis by (simp add: getAnalyser_def analyserLogs_def)
qed

lemma getAnalyser_cached: "analyzer s = Some a \<Longrightarrow> getAnalyser e s = (a, s)"
  by (simp add: getAnalyser_def)

lemma getAnalyser_stores: "analyzer (snd (getAnalyser e s)) = Some (fst (getAnalyser e s))"
  by (subst getAnalyser_frame) simp

lemma analyzerRoles_update [simp]:
  "analyzerRoles e (s\<lparr>trace := t\<rparr>) = analyzerRoles e s"
  "analyzerRoles e (s\<lparr>directory := d\<rparr>) = analyzerRoles e s"
  "analyzerRoles e (s\<lparr>trackingIndexWriter := w\<rparr>) = analyzerRoles e s"
  "analyzerRoles e (s\<lparr>nrtManager := m\<rparr>) = analyzerRoles e s"
  "analyzerRoles e (s\<lparr>nrtReopenThread := r\<rparr>) = analyzerRoles e s"
  "analyzerRoles e (s\<lparr>commiterThread := c\<rparr>) = analyzerRoles e s"
  "analyzerRoles e (s\<lparr>generation := g\<rparr>) = analyzerRoles e s"
  by (simp_all add: analyzerRoles_def loadStopSet_def)

lemma getAnalyser_update [simp]:
  "fst (getAnalyser e (s\<lparr>trace := t\<rparr>)) = fst (getAnalyser e s)"
  "fst (getAnalyser e (s\<lparr>directory := d\<rparr>)) = fst (getAnalyser e s)"
  "fst (getAnalyser e (s\<lparr>trackingIndexWriter := w\<rparr>)) = fst (getAnalyser e s)"
  "fst (getAnalyser e (s\<lparr>nrtManager := m\<rparr>)) = fst (getAnalyser e s)"
  "fst (getAnalyser e (s\<lparr>nrtReopenThread := r\<rparr>)) = fst (getAnalyser e s)"
  "fst (getAnalyser e (s\<lparr>commiterThread := c\<rparr>)) = fst (getAnalyser e s)"
  "fst (getAnalyser e (s\<lparr>generation := g\<rparr>)) = fst (getAnalyser e s)"
  by (simp_all add: getAnalyser_def Let_def split: option.splits prod.splits)

lemma analyserLogs_update [simp]:
  "analyserLogs e (s\<lparr>trace := t\<rparr>) = analyserLogs e s"
  "analyserLogs e (s\<lparr>directory := d\<rparr>) = analyserLogs e s"
  "analyserLogs e (s\<lparr>trackingIndexWriter := w\<rparr>) = analyserLogs e s"
  "analyserLogs e (s\<lparr>nrtManager := m\<rparr>) = analyserLogs e s"
  "analyserLogs e (s\<lparr>nrtReopenThread := r\<rparr>) = analyserLogs e s"
  "analyserLogs e (s\<lparr>commiterThread := c\<rparr>) = analyserLogs e s"
  "analyserLogs e (s\<lparr>generation := g\<rparr>) = analyserLogs e s"
  by (simp_all add: analyserLogs_def split: option.splits)

lemma afterPropertiesSet_ok:
  assumes "initSucceeds e"
  shows "afterPropertiesSet e s =
    (Inr (),
     s\<lparr>analyzer := Some (fst (getAnalyser e s)),
       directory := Some \<lparr> dirPath = indexPath s, dirClosed = False \<rparr>,
       trackingIndexWriter :=
         Some \<lparr> writerAnalyzer = fst (getAnalyser e s), writerClosed = False \<rparr>,
       nrtManager :=
         Some \<lparr> currentSearcher = firstSearcher e, refCount = 0, managerClosed = False \<rparr>,
       nrtReopenThread := Some (newReopenThread e),
       commiterThread := Some newCommiterThread,
       trace := trace s @ initEvents e s\<rparr>)"
  using assms
  by (simp add: afterPropertiesSet_def initSucceeds_def Let_def case_prod_beta emit_def
      getAnalyser_frame initEvents_def split: if_splits)

lemma afterPropertiesSet_fails:
  "\<not> initSucceeds e \<Longrightarrow> \<exists>t. fst (afterPropertiesSet e s) = Inl t"
  by (auto simp add: afterPropertiesSet_def initSucceeds_def Let_def case_prod_beta
      split: if_splits option.splits)

lemma afterPropertiesSet_succeeds_iff:
  "fst (afterPropertiesSet e s) = Inr () \<longleftrightarrow> initSucceeds e"
proof
  assume h: "fst (afterPropertiesSet e s) = Inr ()"
  show "initSucceeds e"
  proof (rule ccontr)
    assume "\<not> initSucceeds e"
    then obtain t where "fst (afterPropertiesSet e s) = Inl t"
      using afterPropertiesSet_fails by blast
    with h show False by simp
  qed
next
  assume "initSucceeds e"
  then show "fst (afterPropertiesSet e s) = Inr ()" by (simp add: afterPropertiesSet_ok)
qed

lemma initEvents_update [simp]:
  "initEvents e (s\<lparr>trace := t\<rparr>) = initEvents e s"
  "initEvents e (s\<lparr>directory := d\<rparr>) = initEvents e s"
  "initEvents e (s\<lparr>trackingIndexWriter := w\<rparr>) = initEvents e s"
  "initEvents e (s\<lparr>nrtManager := m\<rparr>) = initEvents e s"
  "initEvents e (s\<lparr>nrtReopenThread := r\<rparr>) = initEvents e s"
  "initEvents e (s\<lparr>commiterThread := c\<rparr>) = initEvents e s"
  by (simp_all add: initEvents_def)


lemma deleteDirectory_ok:
  assumes "commiterThread s = Some t" and "nrtReopenThread s = Some r"
    and "nrtManager s = Some m" and "trackingIndexWriter s = Some w" and "directory s = Some d"
    and "closeManager c = None" and "closeWriter c = None" and "closeDirectory c = None"
    and "initSucceeds e"
  shows "deleteDirectory c e s =
    (Inr (),
     s\<lparr>analyzer := Some (fst (getAnalyser e s)),
       directory := Some \<lparr> dirPath = indexPath s, dirClosed = False \<rparr>,
       trackingIndexWriter :=
         Some \<lparr> writerAnalyzer = fst (getAnalyser e s), writerClosed = False \<rparr>,
       nrtManager :=
         Some \<lparr> currentSearcher = firstSearcher e, refCount = 0, managerClosed = False \<rparr>,
       nrtReopenThread := Some (newReopenThread e),
       commiterThread := Some newCommiterThread,
       trace := trace s @
         [TimerCancel, ReopenThreadClose, NRTManagerClose, IndexWriterClose, DirectoryClose,
          FileUtilsDelete (indexPath s)] @ initEvents e s\<rparr>)"
  using assms
  by (simp add: deleteDirectory_def FileUtils_delete_def Let_def emit_def afterPropertiesSet_ok)

subsection \<open>The concrete engines\<close>

lemma exampleEngine_eval:
  "exampleEngine = \<lparr> indexPath = ''/data/index'',
     analyzer = Some \<lparr> defaultAnalyzer = TLEAnalyzer None True,
       fieldAnalyzers = fieldMap (TLEAnalyzer None False) (TLEAnalyzer None False) \<rparr>,
     stopWordsFile = None, analyzerLanguage = ''en'',
     directory = Some \<lparr> dirPath = ''/data/index'', dirClosed = False \<rparr>,
     trackingIndexWriter = Some \<lparr> writerAnalyzer = \<lparr> defaultAnalyzer = TLEAnalyzer None True,
       fieldAnalyzers = fieldMap (TLEAnalyzer None False) (TLEAnalyzer None False) \<rparr>,
       writerClosed = False \<rparr>,
     nrtManager = Some \<lparr> currentSearcher = Some 0, refCount = 0, managerClosed = False \<rparr>,
     nrtReopenThread = Some (newReopenThread exampleEnv),
     commiterThread = Some newCommiterThread,
     generation = - 1,
     trace = [Mkdirs ''/data/index'', FSDirectoryOpen ''/data/index'',
       Log INFO ''Opening writer for index:/data/index'' None, NewIndexWriter,
       NewNRTManager, ReopenThreadStart, TimerSchedule] \<rparr>"
  by (simp add: exampleEngine_def exampleEnv_def newEngine_def emit_def setIndexPath_def
      setAnalyzerLanguage_def afterPropertiesSet_def getAnalyser_def analyzerRoles_def
      loadStopSet_def Let_def)

lemma exampleEngine_fields:
  "indexPath exampleEngine = ''/data/index''"
  "analyzer exampleEngine = Some \<lparr> defaultAnalyzer = TLEAnalyzer None True,
       fieldAnalyzers = fieldMap (TLEAnalyzer None False) (TLEAnalyzer None False) \<rparr>"
  "stopWordsFile exampleEngine = None"
  "analyzerLanguage exampleEngine = ''en''"
  "directory exampleEngine = Some \<lparr> dirPath = ''/data/index'', dirClosed = False \<rparr>"
  "trackingIndexWriter exampleEngine =
     Some \<lparr> writerAnalyzer = \<lparr> defaultAnalyzer = TLEAnalyzer None True,
       fieldAnalyzers = fieldMap (TLEAnalyzer None False) (TLEAnalyzer None False) \<rparr>,
       writerClosed = False \<rparr>"
  "nrtManager exampleEngine =
     Some \<lparr> currentSearcher = Some 0, refCount = 0, managerClosed = False \<rparr>"
  "nrtReopenThread exampleEngine = Some (newReopenThread exampleEnv)"
  "commiterThread exampleEngine = Some newCommiterThread"
  "generation exampleEngine = - 1"
  "trace exampleEngine = [Mkdirs ''/data/index'', FSDirectoryOpen ''/data/index'',
       Log INFO ''Opening writer for index:/data/index'' None, NewIndexWriter,
       NewNRTManager, ReopenThreadStart, TimerSchedule]"
  by (simp_all add: exampleEngine_eval)



lemma closesOk_fields:
  "closeManager closesOk = None" "closeWriter closesOk = None" "closeDirectory closesOk = None"
  by (simp_all add: closesOk_def)



lemma relocalisedEngine_fields:
  "indexPath relocalisedEngine = ''/data/index''"
  "analyzer relocalisedEngine = Some \<lparr> defaultAnalyzer = TLEAnalyzer None True,
       fieldAnalyzers = fieldMap (TLEAnalyzer None False) (TLEAnalyzer None False) \<rparr>"
  "stopWordsFile relocalisedEngine = Some ''stopwords.txt''"
  "analyzerLanguage relocalisedEngine = ''fr''"
  "directory relocalisedEngine = Some \<lparr> dirPath = ''/data/index'', dirClosed = False \<rparr>"
  "trackingIndexWriter relocalisedEngine =
     Some \<lparr> writerAnalyzer = \<lparr> defaultAnalyzer = TLEAnalyzer None True,
       fieldAnalyzers = fieldMap (TLEAnalyzer None False) (TLEAnalyzer None False) \<rparr>,
       writerClosed = False \<rparr>"
  "nrtManager relocalisedEngine =
     Some \<lparr> currentSearcher = Some 0, refCount = 0, managerClosed = False \<rparr>"
  "nrtReopenThread relocalisedEngine = Some (newReopenThread exampleEnv)"
  "commiterThread relocalisedEngine = Some newCommiterThread"
  by (simp_all add: relocalisedEngine_def setAnalyzerLanguage_def setStopWordsFile_def
      exampleEngine_fields)


lemma frenchEnv_fields:
  "stopWordsFileExists frenchEnv = True" "getWordSet frenchEnv = Inr [''le'', ''la'']"
  "scanSubclasses frenchEnv = (\<lambda>p. [])" "getAnalyzerFieldMap frenchEnv = fieldMap"
  "stopWordsFileExists brokenFrenchEnv = True" "getWordSet brokenFrenchEnv = Inr [''le'', ''la'']"
  "scanSubclasses brokenFrenchEnv = (\<lambda>p. [brokenFrenchAnalyzer])"
  "getAnalyzerFieldMap brokenFrenchEnv = fieldMap"
  by (simp_all add: frenchEnv_def brokenFrenchEnv_def exampleEnv_def)

lemma initSucceeds_frenchEnv: "initSucceeds frenchEnv" "initSucceeds brokenFrenchEnv"
  by (simp_all add: initSucceeds_def frenchEnv_def brokenFrenchEnv_def exampleEnv_def)


subsection \<open>The schedulers and the reset\<close>



lemma fst_modifyIndex_trace [simp]:
  "fst (modifyIndex b (s\<lparr>trace := x\<rparr>)) = fst (modifyIndex b s)"
  by (simp add: modifyIndex_def Let_def split: sum.splits)

lemma fst_search_trace [simp]:
  "fst (search fn rel (s\<lparr>trace := x\<rparr>)) = fst (search fn rel s)"
  by (simp add: search_def Let_def case_prod_beta emit_def split: option.splits sum.splits)

lemma ready_trace [simp]: "ready (s\<lparr>trace := x\<rparr>) = ready s"
  by (simp add: ready_def)







subsection \<open>The analyzers\<close>





lemma analyzer_afterPropertiesSet:
  "analyzer s = Some a \<Longrightarrow> analyzer (snd (afterPropertiesSet e s)) = Some a"
  by (simp add: afterPropertiesSet_def Let_def case_prod_beta emit_def getAnalyser_frame
      getAnalyser_cached split: option.splits)

lemma afterPropertiesSet_result:
  assumes "afterPropertiesSet e s = (Inr u, s')"
  shows "trackingIndexWriter s' =
           Some \<lparr> writerAnalyzer = fst (getAnalyser e s), writerClosed = False \<rparr>"
proof -
  from assms have "fst (afterPropertiesSet e s) = Inr ()" by simp
  then have "initSucceeds e" by (simp add: afterPropertiesSet_succeeds_iff)
  then have "afterPropertiesSet e s =
    (Inr (),
     s\<lparr>analyzer := Some (fst (getAnalyser e s)),
       directory := Some \<lparr> dirPath = indexPath s, dirClosed = False \<rparr>,
       trackingIndexWriter :=
         Some \<lparr> writerAnalyzer = fst (getAnalyser e s), writerClosed = False \<rparr>,
       nrtManager :=
         Some \<lparr> currentSearcher = firstSearcher e, refCount = 0, managerClosed = False \<rparr>,
       nrtReopenThread := Some (newReopenThread e),
       commiterThread := Some newCommiterThread,
       trace := trace s @ initEvents e s\<rparr>)"
    by (rule afterPropertiesSet_ok)
  with assms show ?thesis by auto
qed

lemma analyzer_afterPropertiesSet_eq:
  "afterPropertiesSet e s = (r, s') \<Longrightarrow> analyzer s = Some a \<Longrightarrow> analyzer s' = Some a"
  using analyzer_afterPropertiesSet [of s a e] by simp

lemma analyzer_deleteDirectory:
  "analyzer s = Some a \<Longrightarrow> analyzer (snd (deleteDirectory c e s)) = Some a"
  by (auto simp add: deleteDirectory_def FileUtils_delete_def Let_def emit_def
      split: option.splits prod.splits sum.splits
      dest!: analyzer_afterPropertiesSet_eq)

lemma writer_deleteDirectory:
  "analyzer s = Some a \<Longrightarrow> fst (deleteDirectory c e s) = Inr () \<Longrightarrow>
   map_option writerAnalyzer (trackingIndexWriter (snd (deleteDirectory c e s))) = Some a"
  by (auto simp add: deleteDirectory_def FileUtils_delete_def Let_def emit_def getAnalyser_cached
      split: option.splits prod.splits sum.splits
      dest!: afterPropertiesSet_result)

lemma analyzer_modifyIndex [simp]: "analyzer (snd (modifyIndex b s)) = analyzer s"
  by (simp add: modifyIndex_def Let_def emit_def split: sum.splits)

lemma analyzer_search [simp]: "analyzer (snd (search fn rel s)) = analyzer s"
  by (auto simp add: search_def acquire_def Let_def emit_def
      split: option.splits prod.splits sum.splits)

lemma analyzer_timerTick [simp]: "analyzer (timerTick outcome s) = analyzer s"
  by (simp add: timerTick_def commitTask_def Let_def emit_def split: option.splits prod.splits)

lemma analyzer_step: "analyzer s = Some a \<Longrightarrow> analyzer (step x s) = Some a"
  by (cases x)
    (simp_all add: setStopWordsFile_def setAnalyzerLanguage_def setIndexPath_def
      analyzer_afterPropertiesSet analyzer_deleteDirectory)

lemma analyzer_exec: "analyzer s = Some a \<Longrightarrow> analyzer (exec xs s) = Some a"
  by (induction xs arbitrary: s) (simp_all add: analyzer_step)

text \<open>
  C9, as the code has it. Once the field \<open>analyzer\<close> is set, \<open>getAnalyser\<close> returns it
  and changes nothing. A call of \<open>getAnalyser\<close> sets the field to what it returns, and
  after any list of calls on the engine, the setters of the stop words file and of the
  language among them, and in any environment, \<open>getAnalyser\<close> returns that same
  analyzer. \<open>deleteDirectory\<close> does not clear the field: the analyzer is the same after
  it, and the writer opened by a reset that succeeds is given the cached analyzer.
\<close>

theorem analyser_cached:
  "(analyzer s = Some a \<longrightarrow> getAnalyser e s = (a, s)) \<and>
   analyzer (snd (getAnalyser e s)) = Some (fst (getAnalyser e s)) \<and>
   fst (getAnalyser e' (exec ops (snd (getAnalyser e s)))) = fst (getAnalyser e s) \<and>
   (analyzer s = Some a \<longrightarrow>
      analyzer (snd (deleteDirectory c e s)) = Some a \<and>
      (fst (deleteDirectory c e s) = Inr () \<longrightarrow>
         map_option writerAnalyzer (trackingIndexWriter (snd (deleteDirectory c e s))) = Some a))"
proof (intro conjI impI)
  assume "analyzer s = Some a"
  then show "getAnalyser e s = (a, s)" by (rule getAnalyser_cached)
next
  show st: "analyzer (snd (getAnalyser e s)) = Some (fst (getAnalyser e s))"
    by (rule getAnalyser_stores)
  then have "analyzer (exec ops (snd (getAnalyser e s))) = Some (fst (getAnalyser e s))"
    by (rule analyzer_exec)
  then show "fst (getAnalyser e' (exec ops (snd (getAnalyser e s)))) = fst (getAnalyser e s)"
    by (simp add: getAnalyser_cached)
next
  assume "analyzer s = Some a"
  then show "analyzer (snd (deleteDirectory c e s)) = Some a" by (rule analyzer_deleteDirectory)
next
  assume "analyzer s = Some a" and "fst (deleteDirectory c e s) = Inr ()"
  then show "map_option writerAnalyzer (trackingIndexWriter (snd (deleteDirectory c e s))) = Some a"
    by (rule writer_deleteDirectory)
qed

theorem analyser_cached_witness:
  "getAnalyser frenchEnv relocalisedEngine =
     (\<lparr> defaultAnalyzer = TLEAnalyzer None True,
        fieldAnalyzers = fieldMap (TLEAnalyzer None False) (TLEAnalyzer None False) \<rparr>,
      relocalisedEngine) \<and>
   analyzer (snd (deleteDirectory closesOk frenchEnv relocalisedEngine)) =
     Some \<lparr> defaultAnalyzer = TLEAnalyzer None True,
       fieldAnalyzers = fieldMap (TLEAnalyzer None False) (TLEAnalyzer None False) \<rparr>"
  using analyser_cached [where s = relocalisedEngine and e = frenchEnv and c = closesOk
      and a = "\<lparr> defaultAnalyzer = TLEAnalyzer None True,
        fieldAnalyzers = fieldMap (TLEAnalyzer None False) (TLEAnalyzer None False) \<rparr>"
      and e' = frenchEnv and ops = "[]"]
  by (simp add: relocalisedEngine_fields)

text \<open>
  The claim C9 as worded fails in its last part: an engine initialised for English and
  then set to French with a stop words file still has, after a reset that succeeds, the
  analyzer built for English, where a newly built analyzer would have the French stop
  words.
\<close>

theorem analyser_reset_counterexample:
  "analyzer relocalisedEngine \<noteq> None \<and>
   fst (deleteDirectory closesOk frenchEnv relocalisedEngine) = Inr () \<and>
   analyzer (snd (deleteDirectory closesOk frenchEnv relocalisedEngine)) =
     analyzer relocalisedEngine \<and>
   map_option defaultAnalyzer (analyzer (snd (deleteDirectory closesOk frenchEnv relocalisedEngine))) =
     Some (TLEAnalyzer None True) \<and>
   defaultAnalyzer (fst (getAnalyser frenchEnv (relocalisedEngine\<lparr>analyzer := None\<rparr>))) =
     TLEAnalyzer (Some [''le'', ''la'']) True"
  by (simp add: deleteDirectory_ok [OF relocalisedEngine_fields(9) relocalisedEngine_fields(8)
        relocalisedEngine_fields(7) relocalisedEngine_fields(6) relocalisedEngine_fields(5)
        closesOk_fields initSucceeds_frenchEnv(1)]
      relocalisedEngine_fields getAnalyser_def analyzerRoles_def loadStopSet_def Let_def
      frenchEnv_fields)

end
